theory Spec2Isabelle
  imports Complex_Main "HOL-Library.Sublist"
begin

section \<open>Data model of the estimate editor\<close>

text \<open>
  The component \<^verbatim>\<open>EstimateDetailModal\<close> keeps an estimate header and an ordered list of
  line items in memory and writes them to the hosted relational backend on save.

  JavaScript numbers are modelled as exact rationals: sums and products are the
  mathematical ones, rounding of IEEE doubles and the values NaN and Infinity are outside
  the model. Strings are lists of 8-bit code units.
\<close>

type_synonym number = rat

text \<open>
  \<^verbatim>\<open>type LineItem\<close>. The field \<^verbatim>\<open>id\<close> is called \<open>item_id\<close> here; an optional field
  (\<^verbatim>\<open>part_id?\<close>) is an option, \<open>None\<close> standing for undefined and null alike.
\<close>

record LineItem =
  item_id :: string
  line_order :: nat
  item_type :: string
  description :: string
  quantity :: number
  unit_price :: number
  line_total :: number
  part_id :: "string option"
  equipment_id :: "string option"
  labor_hours :: "number option"
  labor_rate :: "number option"

text \<open>
  \<^verbatim>\<open>type EstimateDetail\<close>, which is also the row of the table \<^verbatim>\<open>estimates\<close>
  (the component reads it with \<^verbatim>\<open>select('*')\<close>). The field \<^verbatim>\<open>id\<close> is called
  \<open>estimate_id\<close>. The column \<^verbatim>\<open>conversion_date\<close> is written by the conversion handlers
  and is therefore part of the row, although the TypeScript type does not list it. The joined
  read-only objects \<^verbatim>\<open>customers\<close> and \<^verbatim>\<open>profiles\<close> are not used by any handler and
  are left out.
\<close>

record EstimateDetail =
  estimate_id :: string
  estimate_number :: string
  customer_id :: string
  job_title :: string
  job_description :: string
  site_location :: string
  status :: string
  subtotal :: number
  tax_rate :: number
  tax_amount :: number
  total_amount :: number
  estimate_date :: string
  expiration_date :: string
  est_notes :: string
  terms_conditions :: string
  created_at :: string
  converted_to_ticket_id :: "string option"
  converted_to_project_id :: "string option"
  conversion_date :: "string option"

text \<open>The object returned by \<^verbatim>\<open>calculateTotals\<close>.\<close>

record Totals =
  totals_subtotal :: number
  totals_discount :: number
  totals_taxAmount :: number
  totals_total :: number

section \<open>Totals\<close>

text \<open>
  \<^verbatim>\<open>estimate?.tax_rate || 0\<close>: zero when no estimate is loaded, and a falsy rate (zero) is
  replaced by zero.
\<close>

definition tax_rate_or_zero :: "EstimateDetail option \<Rightarrow> number" where
  "tax_rate_or_zero est =
     (case est of
        None \<Rightarrow> 0
      | Some e \<Rightarrow> (if tax_rate e = 0 then 0 else tax_rate e))"

text \<open>
  \<^verbatim>\<open>calculateTotals\<close> reads the component state \<^verbatim>\<open>estimate\<close> and \<^verbatim>\<open>lineItems\<close>;
  both are arguments here. \<^verbatim>\<open>Array.prototype.reduce\<close> with an initial value is a left fold.
\<close>

definition calculateTotals :: "EstimateDetail option \<Rightarrow> LineItem list \<Rightarrow> Totals" where
  "calculateTotals est items =
     (let subtotal = foldl (\<lambda>sum item.
                         if item_type item \<noteq> ''discount'' then sum + line_total item else sum)
                       0 items;
          discount = foldl (\<lambda>sum item.
                         if item_type item = ''discount'' then sum + \<bar>line_total item\<bar> else sum)
                       0 items;
          taxAmount = (subtotal - discount) * (tax_rate_or_zero est / 100);
          total = subtotal - discount + taxAmount
      in \<lparr>totals_subtotal = subtotal, totals_discount = discount,
          totals_taxAmount = taxAmount, totals_total = total\<rparr>)"



section \<open>The line-item editor\<close>







section \<open>Strings\<close>

text \<open>
  \<^verbatim>\<open>String.prototype.trim\<close> removes white space and line terminators from both ends.
  Among the code units below 256 these are TAB, LF, VT, FF, CR, SPACE and NBSP.
\<close>

definition isWhiteSpace :: "char \<Rightarrow> bool" where
  "isWhiteSpace c =
     (c \<in> set [CHR 0x09, CHR 0x0A, CHR 0x0B, CHR 0x0C, CHR 0x0D, CHR 0x20, CHR 0xA0])"

definition trim :: "string \<Rightarrow> string" where
  "trim s = rev (dropWhile isWhiteSpace (rev (dropWhile isWhiteSpace s)))"

text \<open>\<^verbatim>\<open>String.prototype.includes\<close>: the argument occurs as a contiguous substring.\<close>

fun str_includes :: "string \<Rightarrow> string \<Rightarrow> bool" where
  "str_includes [] sub = (sub = [])"
| "str_includes (c # cs) sub = (prefix sub (c # cs) \<or> str_includes cs sub)"

text \<open>\<^verbatim>\<open>x || null\<close> on an optional string: undefined, null and the empty string give null.\<close>

definition or_null :: "string option \<Rightarrow> string option" where
  "or_null x = (case x of None \<Rightarrow> None | Some s \<Rightarrow> (if s = [] then None else Some s))"

section \<open>The backend\<close>

text \<open>The \<^verbatim>\<open>error\<close> object of a backend response; an absent field is the empty string.\<close>

record BackendError =
  error_message :: string
  error_code :: string

text \<open>The object written by \<^verbatim>\<open>from('estimates').update(...)\<close> in \<^verbatim>\<open>handleSave\<close>.\<close>

record HeaderUpdate =
  upd_job_title :: string
  upd_job_description :: string
  upd_site_location :: string
  upd_tax_rate :: number
  upd_subtotal :: number
  upd_tax_amount :: number
  upd_total_amount :: number
  upd_notes :: string
  upd_terms_conditions :: string

text \<open>One element of \<^verbatim>\<open>lineItemsToInsert\<close>.\<close>

record LineItemInsert =
  ins_estimate_id :: string
  ins_line_order :: nat
  ins_item_type :: string
  ins_description :: string
  ins_quantity :: number
  ins_unit_price :: number
  ins_line_total :: number
  ins_part_id :: "string option"
  ins_equipment_id :: "string option"
  ins_labor_hours :: "number option"
  ins_labor_rate :: "number option"

text \<open>The objects inserted into \<^verbatim>\<open>tickets\<close> and \<^verbatim>\<open>projects\<close> on conversion.\<close>

record TicketInsert =
  tkt_customer_id :: string
  tkt_title :: string
  tkt_description :: string
  tkt_ticket_type :: string
  tkt_status :: string
  tkt_priority :: string
  tkt_created_by :: string
  tkt_assigned_to :: string

record ProjectInsert =
  prj_customer_id :: string
  prj_name :: string
  prj_description :: string
  prj_status :: string
  prj_budget_amount :: number
  prj_project_manager_id :: string

text \<open>
  The object written to \<^verbatim>\<open>estimates\<close> on conversion; a back-reference that the object
  does not mention is \<open>None\<close>.
\<close>

record ConversionUpdate =
  cu_status :: string
  cu_converted_to_ticket_id :: "string option"
  cu_converted_to_project_id :: "string option"
  cu_conversion_date :: string

text \<open>The requests the component sends, each with its filter value and payload.\<close>

datatype request =
    UpdateEstimate string HeaderUpdate
  | DeleteLineItems string
  | InsertLineItems "LineItemInsert list"
  | InsertTicket TicketInsert
  | InsertProject ProjectInsert
  | UpdateConversion string ConversionUpdate
  | SelectEstimate string
  | SelectLineItems string

text \<open>A stored ticket: the inserted fields with the identifier and number the backend adds.\<close>

record TicketRow =
  ticket_row_id :: string
  ticket_number :: string
  ticket_fields :: TicketInsert

text \<open>
  The tables. A stored line item or project is the inserted object paired with the identifier
  the backend gave it.
\<close>

record database =
  estimates :: "EstimateDetail list"
  estimate_line_items :: "(string \<times> LineItemInsert) list"
  tickets :: "TicketRow list"
  projects :: "(string \<times> ProjectInsert) list"

text \<open>
  What the component cannot control: which requests the backend answers with an error, and
  the identifiers and ticket numbers it hands out (by the number of rows already stored).
\<close>

record backend =
  rejects :: "request \<Rightarrow> BackendError option"
  gen_id :: "nat \<Rightarrow> string"
  gen_ticket_number :: "nat \<Rightarrow> string"

text \<open>
  Modelled from the spec: the query client \<^verbatim>\<open>lib/supabase\<close> and the hosted store behind
  it are not among the sources. A request is a single statement on one table with an equality
  filter: an update rewrites the named columns of the matching rows, a delete removes the
  matching rows, an insert appends rows, a select changes nothing.
\<close>

definition write_header :: "HeaderUpdate \<Rightarrow> EstimateDetail \<Rightarrow> EstimateDetail" where
  "write_header p row =
     row\<lparr>job_title := upd_job_title p,
         job_description := upd_job_description p,
         site_location := upd_site_location p,
         tax_rate := upd_tax_rate p,
         subtotal := upd_subtotal p,
         tax_amount := upd_tax_amount p,
         total_amount := upd_total_amount p,
         est_notes := upd_notes p,
         terms_conditions := upd_terms_conditions p\<rparr>"

text \<open>
  Modelled from the spec: an update of the conversion columns of a row (the backend is not
  among the sources); a column the object does not mention keeps its value.
\<close>

definition write_conversion :: "ConversionUpdate \<Rightarrow> EstimateDetail \<Rightarrow> EstimateDetail" where
  "write_conversion p row =
     row\<lparr>status := cu_status p,
         converted_to_ticket_id :=
           (case cu_converted_to_ticket_id p of
              None \<Rightarrow> converted_to_ticket_id row | Some t \<Rightarrow> Some t),
         converted_to_project_id :=
           (case cu_converted_to_project_id p of
              None \<Rightarrow> converted_to_project_id row | Some t \<Rightarrow> Some t),
         conversion_date := Some (cu_conversion_date p)\<rparr>"

text \<open>
  Modelled from the spec: the rows an accepted insert stores and returns (the backend is not
  among the sources): the inserted objects, each with a generated identifier, a ticket also
  with a generated number.
\<close>

definition new_line_item_rows ::
  "backend \<Rightarrow> database \<Rightarrow> LineItemInsert list \<Rightarrow> (string \<times> LineItemInsert) list" where
  "new_line_item_rows be d rows =
     map (\<lambda>(k, r). (gen_id be (length (estimate_line_items d) + k), r)) (enumerate 0 rows)"

definition new_ticket_row :: "backend \<Rightarrow> database \<Rightarrow> TicketInsert \<Rightarrow> TicketRow" where
  "new_ticket_row be d t =
     \<lparr>ticket_row_id = gen_id be (length (tickets d)),
      ticket_number = gen_ticket_number be (length (tickets d)),
      ticket_fields = t\<rparr>"

definition new_project_row :: "backend \<Rightarrow> database \<Rightarrow> ProjectInsert \<Rightarrow> string \<times> ProjectInsert" where
  "new_project_row be d p = (gen_id be (length (projects d)), p)"

text \<open>
  Modelled from the spec: the effect of a request the backend accepts (see above for what is
  missing from the sources).
\<close>

fun run_request :: "backend \<Rightarrow> request \<Rightarrow> database \<Rightarrow> database" where
  "run_request be (UpdateEstimate i p) d =
     d\<lparr>estimates := map (\<lambda>row. if estimate_id row = i then write_header p row else row)
                         (estimates d)\<rparr>"
| "run_request be (DeleteLineItems i) d =
     d\<lparr>estimate_line_items :=
         filter (\<lambda>(rid, r). ins_estimate_id r \<noteq> i) (estimate_line_items d)\<rparr>"
| "run_request be (InsertLineItems rows) d =
     d\<lparr>estimate_line_items := estimate_line_items d @ new_line_item_rows be d rows\<rparr>"
| "run_request be (InsertTicket t) d = d\<lparr>tickets := tickets d @ [new_ticket_row be d t]\<rparr>"
| "run_request be (InsertProject p) d = d\<lparr>projects := projects d @ [new_project_row be d p]\<rparr>"
| "run_request be (UpdateConversion i p) d =
     d\<lparr>estimates := map (\<lambda>row. if estimate_id row = i then write_conversion p row else row)
                         (estimates d)\<rparr>"
| "run_request be (SelectEstimate i) d = d"
| "run_request be (SelectLineItems i) d = d"

section \<open>The component and its handlers\<close>

text \<open>
  The state a handler sees and changes: the tables, the property \<^verbatim>\<open>estimateId\<close>, the
  signed-in profile's \<^verbatim>\<open>id\<close>, the React state of the component, and what the handler did
  that can be observed from outside, namely the requests sent (in order) and the texts passed
  to \<^verbatim>\<open>alert\<close>. Console output is not recorded.
\<close>

record world =
  db :: database
  estimateId :: "string option"
  profile_id :: "string option"
  estimate :: "EstimateDetail option"
  lineItems :: "LineItem list"
  loading :: bool
  saving :: bool
  converting :: bool
  editing :: bool
  issued :: "request list"
  alerts :: "string list"

text \<open>
  Sending one request: it is recorded, and the backend either returns an error and changes
  nothing or carries the request out.
\<close>

definition call :: "backend \<Rightarrow> request \<Rightarrow> world \<Rightarrow> BackendError option \<times> world" where
  "call be r w =
     (case rejects be r of
        Some err \<Rightarrow> (Some err, w\<lparr>issued := issued w @ [r]\<rparr>)
      | None \<Rightarrow> (None, w\<lparr>issued := issued w @ [r], db := run_request be r (db w)\<rparr>))"

text \<open>A stored line item as the component reads it back.\<close>

definition as_LineItem :: "string \<times> LineItemInsert \<Rightarrow> LineItem" where
  "as_LineItem sr =
     (case sr of (rid, r) \<Rightarrow>
        \<lparr>item_id = rid, line_order = ins_line_order r, item_type = ins_item_type r,
         description = ins_description r, quantity = ins_quantity r,
         unit_price = ins_unit_price r, line_total = ins_line_total r,
         part_id = ins_part_id r, equipment_id = ins_equipment_id r,
         labor_hours = ins_labor_hours r, labor_rate = ins_labor_rate r\<rparr>)"

text \<open>
  \<^verbatim>\<open>select('*').eq('estimate_id', estimateId).order('line_order')\<close> on the line items,
  and \<^verbatim>\<open>.eq('id', estimateId).single()\<close> on the estimates, which is an error unless exactly
  one row matches.
\<close>

definition stored_line_items :: "string \<Rightarrow> database \<Rightarrow> LineItem list" where
  "stored_line_items eid d =
     map as_LineItem
       (sort_key (\<lambda>sr. ins_line_order (snd sr))
          (filter (\<lambda>sr. ins_estimate_id (snd sr) = eid) (estimate_line_items d)))"

definition single_estimate :: "string \<Rightarrow> database \<Rightarrow> EstimateDetail option" where
  "single_estimate eid d =
     (case filter (\<lambda>row. estimate_id row = eid) (estimates d) of
        [row] \<Rightarrow> Some row
      | _ \<Rightarrow> None)"

text \<open>
  \<^verbatim>\<open>loadEstimateDetails\<close>: both selects are sent (\<^verbatim>\<open>Promise.all\<close>); when either fails
  the state keeps the old estimate and line items.
\<close>

definition loadEstimateDetails :: "backend \<Rightarrow> world \<Rightarrow> world" where
  "loadEstimateDetails be w =
     (case estimateId w of
        None \<Rightarrow> w
      | Some eid \<Rightarrow>
          if eid = [] then w
          else
            (let w1 = w\<lparr>loading := True\<rparr>;
                 (estimateError, w2) = call be (SelectEstimate eid) w1;
                 (lineItemsError, w3) = call be (SelectLineItems eid) w2
             in case (estimateError, single_estimate eid (db w3), lineItemsError) of
                  (None, Some row, None) \<Rightarrow>
                    w3\<lparr>estimate := Some row,
                       lineItems := stored_line_items eid (db w3),
                       loading := False\<rparr>
                | _ \<Rightarrow> w3\<lparr>loading := False\<rparr>))"

text \<open>The object \<^verbatim>\<open>handleSave\<close> writes to the estimate's row.\<close>

definition header_update :: "EstimateDetail \<Rightarrow> Totals \<Rightarrow> HeaderUpdate" where
  "header_update e totals =
     \<lparr>upd_job_title = job_title e,
      upd_job_description = job_description e,
      upd_site_location = site_location e,
      upd_tax_rate = tax_rate e,
      upd_subtotal = totals_subtotal totals,
      upd_tax_amount = totals_taxAmount totals,
      upd_total_amount = totals_total totals,
      upd_notes = est_notes e,
      upd_terms_conditions = terms_conditions e\<rparr>"

text \<open>
  \<^verbatim>\<open>lineItems.filter(item => item.description && item.description.trim() !== '')
  .map((item, index) => ({ ... }))\<close>
\<close>

definition lineItemsToInsert :: "EstimateDetail \<Rightarrow> LineItem list \<Rightarrow> LineItemInsert list" where
  "lineItemsToInsert e items =
     map (\<lambda>(index, item).
            \<lparr>ins_estimate_id = estimate_id e,
             ins_line_order = index,
             ins_item_type = item_type item,
             ins_description = description item,
             ins_quantity = quantity item,
             ins_unit_price = unit_price item,
             ins_line_total = line_total item,
             ins_part_id = or_null (part_id item),
             ins_equipment_id = or_null (equipment_id item),
             ins_labor_hours = (if item_type item = ''labor'' then Some (quantity item) else None),
             ins_labor_rate = (if item_type item = ''labor'' then Some (unit_price item) else None)\<rparr>)
         (enumerate 0
            (filter (\<lambda>item. description item \<noteq> [] \<and> trim (description item) \<noteq> []) items))"

text \<open>The \<^verbatim>\<open>catch\<close> and \<^verbatim>\<open>finally\<close> blocks of \<^verbatim>\<open>handleSave\<close>, and its last steps.\<close>

definition save_failed :: "world \<Rightarrow> world" where
  "save_failed w =
     w\<lparr>alerts := alerts w @ [''Failed to save estimate. Please try again.''],
       saving := False\<rparr>"

definition save_finished :: "backend \<Rightarrow> world \<Rightarrow> world" where
  "save_finished be w = (loadEstimateDetails be (w\<lparr>editing := False\<rparr>))\<lparr>saving := False\<rparr>"

definition handleSave :: "backend \<Rightarrow> world \<Rightarrow> world" where
  "handleSave be w =
     (case estimate w of
        None \<Rightarrow> w
      | Some e \<Rightarrow>
          (let w0 = w\<lparr>saving := True\<rparr>;
               totals = calculateTotals (estimate w) (lineItems w);
               (estimateError, w1) = call be (UpdateEstimate (estimate_id e) (header_update e totals)) w0
           in case estimateError of
                Some err \<Rightarrow> save_failed w1
              | None \<Rightarrow>
                  (let (deleteError, w2) = call be (DeleteLineItems (estimate_id e)) w1
                   in case deleteError of
                        Some err \<Rightarrow> save_failed w2
                      | None \<Rightarrow>
                          (let rows = lineItemsToInsert e (lineItems w)
                           in if length rows > 0 then
                                (let (lineItemsError, w3) = call be (InsertLineItems rows) w2
                                 in case lineItemsError of
                                      Some err \<Rightarrow> save_failed w3
                                    | None \<Rightarrow> save_finished be w3)
                              else save_finished be w2))))"

text \<open>
  The conversion handlers. \<^verbatim>\<open>confirm(...)\<close> is the argument \<open>confirmed\<close> and
  \<^verbatim>\<open>new Date().toISOString()\<close> the argument \<open>now\<close>.
\<close>

definition ticket_insert :: "EstimateDetail \<Rightarrow> string \<Rightarrow> TicketInsert" where
  "ticket_insert e pid =
     \<lparr>tkt_customer_id = customer_id e,
      tkt_title = job_title e,
      tkt_description =
        (if job_description e = [] then ''Converted from estimate'' else job_description e),
      tkt_ticket_type = ''SVC'',
      tkt_status = ''open'',
      tkt_priority = ''normal'',
      tkt_created_by = pid,
      tkt_assigned_to = pid\<rparr>"

definition project_insert :: "EstimateDetail \<Rightarrow> string \<Rightarrow> ProjectInsert" where
  "project_insert e pid =
     \<lparr>prj_customer_id = customer_id e,
      prj_name = job_title e,
      prj_description = (if job_description e = [] then [] else job_description e),
      prj_status = ''planning'',
      prj_budget_amount = total_amount e,
      prj_project_manager_id = pid\<rparr>"

definition convert_done :: "backend \<Rightarrow> string \<Rightarrow> world \<Rightarrow> world" where
  "convert_done be msg w =
     (loadEstimateDetails be (w\<lparr>alerts := alerts w @ [msg]\<rparr>))\<lparr>converting := False\<rparr>"

definition convert_failed :: "string \<Rightarrow> world \<Rightarrow> world" where
  "convert_failed msg w = w\<lparr>alerts := alerts w @ [msg], converting := False\<rparr>"

definition handleConvertToTicket :: "backend \<Rightarrow> string \<Rightarrow> bool \<Rightarrow> world \<Rightarrow> world" where
  "handleConvertToTicket be now confirmed w =
     (case (estimate w, profile_id w) of
        (Some e, Some pid) \<Rightarrow>
          if \<not> confirmed then w
          else
            (let w0 = w\<lparr>converting := True\<rparr>;
                 ticketData = new_ticket_row be (db w0) (ticket_insert e pid);
                 (ticketError, w1) = call be (InsertTicket (ticket_insert e pid)) w0
             in case ticketError of
                  Some err \<Rightarrow> convert_failed ''Failed to convert to ticket. Please try again.'' w1
                | None \<Rightarrow>
                    (let (updateError, w2) =
                           call be (UpdateConversion (estimate_id e)
                                      \<lparr>cu_status = ''converted'',
                                       cu_converted_to_ticket_id = Some (ticket_row_id ticketData),
                                       cu_converted_to_project_id = None,
                                       cu_conversion_date = now\<rparr>) w1
                     in case updateError of
                          Some err \<Rightarrow>
                            convert_failed ''Failed to convert to ticket. Please try again.'' w2
                        | None \<Rightarrow>
                            convert_done be
                              (''Successfully converted to ticket #'' @
                                 (if ticket_number ticketData = [] then ticket_row_id ticketData
                                  else ticket_number ticketData))
                              w2))
      | _ \<Rightarrow> w)"

definition handleConvertToProject :: "backend \<Rightarrow> string \<Rightarrow> bool \<Rightarrow> world \<Rightarrow> world" where
  "handleConvertToProject be now confirmed w =
     (case (estimate w, profile_id w) of
        (Some e, Some pid) \<Rightarrow>
          if \<not> confirmed then w
          else
            (let w0 = w\<lparr>converting := True\<rparr>;
                 projectData = new_project_row be (db w0) (project_insert e pid);
                 (projectError, w1) = call be (InsertProject (project_insert e pid)) w0
             in case projectError of
                  Some err \<Rightarrow> convert_failed ''Failed to convert to project. Please try again.'' w1
                | None \<Rightarrow>
                    (let (updateError, w2) =
                           call be (UpdateConversion (estimate_id e)
                                      \<lparr>cu_status = ''converted'',
                                       cu_converted_to_ticket_id = None,
                                       cu_converted_to_project_id = Some (fst projectData),
                                       cu_conversion_date = now\<rparr>) w1
                     in case updateError of
                          Some err \<Rightarrow>
                            convert_failed ''Failed to convert to project. Please try again.'' w2
                        | None \<Rightarrow>
                            convert_done be
                              (''Successfully converted to project \"'' @ prj_name (snd projectData)
                                 @ ''\"'')
                              w2))
      | _ \<Rightarrow> w)"

text \<open>
  The two conversion buttons are rendered only under
  \<^verbatim>\<open>!loading && estimate && estimate.status === 'accepted' &&
  !estimate.converted_to_ticket_id && !estimate.converted_to_project_id\<close>
  and are disabled while \<^verbatim>\<open>saving || converting\<close>.
\<close>

definition falsy :: "string option \<Rightarrow> bool" where
  "falsy x = (case x of None \<Rightarrow> True | Some s \<Rightarrow> s = [])"

definition convert_buttons_enabled :: "world \<Rightarrow> bool" where
  "convert_buttons_enabled w =
     (\<not> loading w \<and>
      (case estimate w of
         None \<Rightarrow> False
       | Some e \<Rightarrow> status e = ''accepted'' \<and> falsy (converted_to_ticket_id e)
                   \<and> falsy (converted_to_project_id e)) \<and>
      \<not> (saving w \<or> converting w))"

definition click_convert_to_ticket :: "backend \<Rightarrow> string \<Rightarrow> bool \<Rightarrow> world \<Rightarrow> world" where
  "click_convert_to_ticket be now confirmed w =
     (if convert_buttons_enabled w then handleConvertToTicket be now confirmed w else w)"

text \<open>The requests that write to the table \<^verbatim>\<open>estimate_line_items\<close>.\<close>

fun writes_line_items :: "request \<Rightarrow> bool" where
  "writes_line_items (DeleteLineItems i) = True"
| "writes_line_items (InsertLineItems rows) = True"
| "writes_line_items other = False"

text \<open>The requests a handler sent, given the world before and after it.\<close>

definition sent_by :: "world \<Rightarrow> world \<Rightarrow> request list" where
  "sent_by before after = drop (length (issued before)) (issued after)"

text \<open>The requests \<^verbatim>\<open>loadEstimateDetails\<close> sends.\<close>

definition reload_requests :: "world \<Rightarrow> request list" where
  "reload_requests w =
     (case estimateId w of
        None \<Rightarrow> []
      | Some eid \<Rightarrow> if eid = [] then [] else [SelectEstimate eid, SelectLineItems eid])"

section \<open>The ticket dialog\<close>

text \<open>
  \<^verbatim>\<open>TicketDetailModal.handleUpdate\<close>. The row type of a ticket is declared outside the
  sources; the handler reads only \<^verbatim>\<open>completed_date\<close> of it.
\<close>

record Ticket =
  ticket_status :: string
  completed_date :: "string option"

record TicketUpdates =
  tu_status :: string
  tu_hours_onsite :: "number option"
  tu_completed_date :: "string option"

record ticket_dialog =
  ticketId :: string
  ticket :: "Ticket option"
  status_input :: string
  hoursOnsite :: string

text \<open>
  What awaiting the update gives: a response with or without an \<^verbatim>\<open>error\<close>, or an
  exception (with its \<^verbatim>\<open>message\<close>, empty when it has none).
\<close>

datatype update_outcome = Resolved "BackendError option" | Thrown string

text \<open>What the handler does that can be observed, in order.\<close>

datatype ui_event =
    SetSaving bool
  | SendTicketUpdate string TicketUpdates
  | Alert string
  | OnUpdate
  | OnClose

definition permission_text :: string where
  "permission_text =
     ''You do not have permission to update this ticket. Please contact your administrator.''"

text \<open>The chain that chooses \<^verbatim>\<open>errorMessage\<close> for a returned error.\<close>

definition errorMessage :: "BackendError \<Rightarrow> string" where
  "errorMessage error =
     (if error_message error \<noteq> [] then
        (if str_includes (error_message error) ''permission denied''
            \<or> str_includes (error_message error) ''policy''
            \<or> str_includes (error_message error) ''Row level security''
         then permission_text
         else if str_includes (error_message error) ''JSON object requested, multiple''
            \<or> str_includes (error_message error) ''0 rows''
         then permission_text
         else if str_includes (error_message error) ''Cannot change status of billed ticket''
         then ''Cannot change status of billed ticket. Invoice must be voided first.''
         else if str_includes (error_message error) ''Cannot mark non-billable ticket''
         then ''Cannot mark non-billable ticket as ready to invoice.''
         else if error_code error = ''23502''
         then ''Missing required field. Please ensure all required fields are filled.''
         else if error_code error = ''23503''
         then ''Invalid reference. Please check that all linked records exist.''
         else if error_code error = ''PGRST116''
         then permission_text
         else ''Error: '' @ error_message error)
      else ''Failed to update ticket. Please try again.'')"

text \<open>
  The object \<^verbatim>\<open>updates\<close>; \<^verbatim>\<open>parseFloat\<close> is an argument (\<open>None\<close> where it yields
  NaN, which is sent as null).
\<close>

definition ticket_updates ::
  "(string \<Rightarrow> number option) \<Rightarrow> string \<Rightarrow> Ticket \<Rightarrow> string \<Rightarrow> string \<Rightarrow> TicketUpdates" where
  "ticket_updates parseFloat now t st hours =
     \<lparr>tu_status = st,
      tu_hours_onsite = (if hours \<noteq> [] then parseFloat hours else None),
      tu_completed_date =
        (if st = ''completed'' \<and> falsy (completed_date t) then Some now else None)\<rparr>"

definition handleUpdate ::
  "(string \<Rightarrow> number option) \<Rightarrow> string \<Rightarrow> (string \<Rightarrow> TicketUpdates \<Rightarrow> update_outcome)
     \<Rightarrow> ticket_dialog \<Rightarrow> ui_event list" where
  "handleUpdate parseFloat now respond s =
     (case ticket s of
        None \<Rightarrow> []
      | Some t \<Rightarrow>
          (let updates = ticket_updates parseFloat now t (status_input s) (hoursOnsite s)
           in [SetSaving True, SendTicketUpdate (ticketId s) updates]
              @ (case respond (ticketId s) updates of
                   Resolved (Some error) \<Rightarrow> [Alert (errorMessage error)]
                 | Resolved None \<Rightarrow> [OnUpdate, OnClose]
                 | Thrown msg \<Rightarrow>
                     [Alert (if msg \<noteq> [] then msg
                             else ''Failed to update ticket. Please try again.'')])
              @ [SetSaving False]))"

fun is_update_request :: "ui_event \<Rightarrow> bool" where
  "is_update_request (SendTicketUpdate i u) = True"
| "is_update_request other = False"

section \<open>Example data\<close>

text \<open>An estimate header and the two line items of the specification's example.\<close>

definition example_estimate :: EstimateDetail where
  "example_estimate =
     \<lparr>estimate_id = ''e-1'', estimate_number = ''EST-0001'', customer_id = ''c-1'',
      job_title = ''Channel letters'', job_description = ''Install sign'',
      site_location = ''Main St'', status = ''accepted'',
      subtotal = 0, tax_rate = 10, tax_amount = 0, total_amount = 0,
      estimate_date = ''2024-01-01'', expiration_date = ''2024-02-01'',
      est_notes = '''', terms_conditions = '''', created_at = ''2024-01-01'',
      converted_to_ticket_id = None, converted_to_project_id = None,
      conversion_date = None\<rparr>"

definition example_labor :: LineItem where
  "example_labor =
     \<lparr>item_id = ''a'', line_order = 0, item_type = ''labor'', description = ''Standard Rate'',
      quantity = 2, unit_price = 100, line_total = 2 * 100,
      part_id = None, equipment_id = None, labor_hours = None, labor_rate = None\<rparr>"

definition example_discount :: LineItem where
  "example_discount =
     \<lparr>item_id = ''b'', line_order = 1, item_type = ''discount'', description = ''Promo'',
      quantity = 1, unit_price = - 20, line_total = - 20,
      part_id = None, equipment_id = None, labor_hours = None, labor_rate = None\<rparr>"

text \<open>
  A labor line added in the editor and priced by hand (no rate chosen, so its description is
  still empty), a second line that carries the same identifier as the labor example, and
  the stored form of the two example lines.
\<close>

definition example_blank :: LineItem where
  "example_blank =
     \<lparr>item_id = ''n'', line_order = 2, item_type = ''labor'', description = '''',
      quantity = 1, unit_price = 50, line_total = 1 * 50,
      part_id = None, equipment_id = None, labor_hours = None, labor_rate = None\<rparr>"


definition example_rows :: "(string \<times> LineItemInsert) list" where
  "example_rows =
     [(''a'', \<lparr>ins_estimate_id = ''e-1'', ins_line_order = 0, ins_item_type = ''labor'',
              ins_description = ''Standard Rate'', ins_quantity = 2, ins_unit_price = 100,
              ins_line_total = 200, ins_part_id = None, ins_equipment_id = None,
              ins_labor_hours = Some 2, ins_labor_rate = Some 100\<rparr>),
      (''b'', \<lparr>ins_estimate_id = ''e-1'', ins_line_order = 1, ins_item_type = ''discount'',
              ins_description = ''Promo'', ins_quantity = 1, ins_unit_price = - 20,
              ins_line_total = - 20, ins_part_id = None, ins_equipment_id = None,
              ins_labor_hours = None, ins_labor_rate = None\<rparr>)]"

text \<open>Backends: one that accepts everything, and ones that reject a single kind of request.\<close>

definition example_error :: BackendError where
  "example_error =
     \<lparr>error_message = ''new row violates row-level security policy for table'',
      error_code = ''42501''\<rparr>"

definition accepting :: backend where
  "accepting =
     \<lparr>rejects = (\<lambda>r. None),
      gen_id = (\<lambda>n. replicate (Suc n) CHR ''x''),
      gen_ticket_number = (\<lambda>n. replicate (Suc n) CHR ''7'')\<rparr>"

definition rejecting_header_update :: backend where
  "rejecting_header_update =
     accepting\<lparr>rejects := (\<lambda>r. case r of UpdateEstimate i p \<Rightarrow> Some example_error | _ \<Rightarrow> None)\<rparr>"

definition rejecting_delete :: backend where
  "rejecting_delete =
     accepting\<lparr>rejects := (\<lambda>r. case r of DeleteLineItems i \<Rightarrow> Some example_error | _ \<Rightarrow> None)\<rparr>"

text \<open>
  The dialog open on the example estimate in edit mode, with the job title changed in the
  form; the same with the hand-priced line added; and the dialog showing the accepted
  estimate while the stored row has meanwhile been converted from another session.
\<close>

definition example_world :: world where
  "example_world =
     \<lparr>db = \<lparr>estimates = [example_estimate], estimate_line_items = example_rows,
             tickets = [], projects = []\<rparr>,
      estimateId = Some ''e-1'',
      profile_id = Some ''u-1'',
      estimate = Some (example_estimate\<lparr>job_title := ''Pylon sign''\<rparr>),
      lineItems = [example_labor, example_discount],
      loading = False, saving = False, converting = False, editing = True,
      issued = [], alerts = []\<rparr>"

definition example_world_blank :: world where
  "example_world_blank = example_world\<lparr>lineItems := [example_labor, example_blank]\<rparr>"

definition example_ticket :: TicketRow where
  "example_ticket =
     \<lparr>ticket_row_id = ''t-0'', ticket_number = ''1001'',
      ticket_fields = ticket_insert example_estimate ''u-2''\<rparr>"

definition example_world_stale :: world where
  "example_world_stale =
     \<lparr>db = \<lparr>estimates = [example_estimate\<lparr>status := ''converted'',
                                            converted_to_ticket_id := Some ''t-0'',
                                            conversion_date := Some ''2024-01-05T10:00:00.000Z''\<rparr>],
             estimate_line_items = example_rows,
             tickets = [example_ticket], projects = []\<rparr>,
      estimateId = Some ''e-1'',
      profile_id = Some ''u-1'',
      estimate = Some example_estimate,
      lineItems = [example_labor, example_discount],
      loading = False, saving = False, converting = False, editing = False,
      issued = [], alerts = []\<rparr>"

definition example_dialog :: ticket_dialog where
  "example_dialog =
     \<lparr>ticketId = ''t-0'',
      ticket = Some \<lparr>ticket_status = ''open'', completed_date = None\<rparr>,
      status_input = ''completed'',
      hoursOnsite = ''''\<rparr>"

section \<open>Properties of the totals\<close>






section \<open>Backend calls, reloading and the paths of saving\<close>

lemma call_rejected:
  "rejects be r = Some err \<Longrightarrow> call be r w = (Some err, w\<lparr>issued := issued w @ [r]\<rparr>)"
  by (simp add: call_def)

lemma call_accepted:
  "rejects be r = None \<Longrightarrow>
   call be r w = (None, w\<lparr>issued := issued w @ [r], db := run_request be r (db w)\<rparr>)"
  by (simp add: call_def)

lemma call_select_db:
  "db (snd (call be (SelectEstimate i) w)) = db w"
  "db (snd (call be (SelectLineItems i) w)) = db w"
  by (simp_all add: call_def split: option.splits)

lemma call_issued: "issued (snd (call be r w)) = issued w @ [r]"
  by (simp add: call_def split: option.splits)

lemma call_frame:
  "alerts (snd (call be r w)) = alerts w"
  "estimate (snd (call be r w)) = estimate w"
  "lineItems (snd (call be r w)) = lineItems w"
  "editing (snd (call be r w)) = editing w"
  "estimateId (snd (call be r w)) = estimateId w"
  by (simp_all add: call_def split: option.splits)

lemma loadEstimateDetails_db: "db (loadEstimateDetails be w) = db w"
  by (simp add: loadEstimateDetails_def Let_def call_def split: option.splits prod.splits list.splits)

lemma loadEstimateDetails_issued:
  "issued (loadEstimateDetails be w) = issued w @ reload_requests w"
  by (simp add: loadEstimateDetails_def reload_requests_def Let_def call_def split: option.splits prod.splits list.splits)

lemma loadEstimateDetails_alerts: "alerts (loadEstimateDetails be w) = alerts w"
  by (simp add: loadEstimateDetails_def Let_def call_def split: option.splits prod.splits list.splits)

lemma reload_requests_no_write: "filter writes_line_items (reload_requests w) = []"
  by (simp add: reload_requests_def split: option.splits)


lemma handleSave_update_rejected:
  assumes "estimate w = Some e"
    and "rejects be (UpdateEstimate (estimate_id e)
           (header_update e (calculateTotals (estimate w) (lineItems w)))) = Some err"
  shows "handleSave be w =
     w\<lparr>saving := False,
       issued := issued w @ [UpdateEstimate (estimate_id e)
           (header_update e (calculateTotals (estimate w) (lineItems w)))],
       alerts := alerts w @ [''Failed to save estimate. Please try again.'']\<rparr>"
  using assms by (simp add: handleSave_def Let_def call_def save_failed_def)

lemma handleSave_delete_rejected:
  assumes "estimate w = Some e"
    and "rejects be (UpdateEstimate (estimate_id e)
           (header_update e (calculateTotals (estimate w) (lineItems w)))) = None"
    and "rejects be (DeleteLineItems (estimate_id e)) = Some err"
  shows "handleSave be w =
     w\<lparr>saving := False,
       issued := issued w @ [UpdateEstimate (estimate_id e)
           (header_update e (calculateTotals (estimate w) (lineItems w))),
           DeleteLineItems (estimate_id e)],
       db := run_request be (UpdateEstimate (estimate_id e)
           (header_update e (calculateTotals (estimate w) (lineItems w)))) (db w),
       alerts := alerts w @ [''Failed to save estimate. Please try again.'']\<rparr>"
  using assms by (simp add: handleSave_def Let_def call_def save_failed_def)

lemma handleSave_nothing_to_insert:
  assumes "estimate w = Some e"
    and "rejects be (UpdateEstimate (estimate_id e)
           (header_update e (calculateTotals (estimate w) (lineItems w)))) = None"
    and "rejects be (DeleteLineItems (estimate_id e)) = None"
    and "lineItemsToInsert e (lineItems w) = []"
  shows "handleSave be w =
     save_finished be
      (w\<lparr>saving := True,
       issued := issued w @ [UpdateEstimate (estimate_id e)
           (header_update e (calculateTotals (estimate w) (lineItems w))),
           DeleteLineItems (estimate_id e)],
       db := run_request be (DeleteLineItems (estimate_id e))
          (run_request be (UpdateEstimate (estimate_id e)
           (header_update e (calculateTotals (estimate w) (lineItems w)))) (db w))\<rparr>)"
  using assms by (simp add: handleSave_def Let_def call_def)

lemma handleSave_insert_rejected:
  assumes "estimate w = Some e"
    and "rejects be (UpdateEstimate (estimate_id e)
           (header_update e (calculateTotals (estimate w) (lineItems w)))) = None"
    and "rejects be (DeleteLineItems (estimate_id e)) = None"
    and "lineItemsToInsert e (lineItems w) \<noteq> []"
    and "rejects be (InsertLineItems (lineItemsToInsert e (lineItems w))) = Some err"
  shows "handleSave be w =
      w\<lparr>saving := False,
       issued := issued w @ [UpdateEstimate (estimate_id e)
           (header_update e (calculateTotals (estimate w) (lineItems w))),
           DeleteLineItems (estimate_id e),
           InsertLineItems (lineItemsToInsert e (lineItems w))],
       db := run_request be (DeleteLineItems (estimate_id e))
          (run_request be (UpdateEstimate (estimate_id e)
           (header_update e (calculateTotals (estimate w) (lineItems w)))) (db w)),
       alerts := alerts w @ [''Failed to save estimate. Please try again.'']\<rparr>"
  using assms by (simp add: handleSave_def Let_def call_def save_failed_def)

lemma handleSave_inserted:
  assumes "estimate w = Some e"
    and "rejects be (UpdateEstimate (estimate_id e)
           (header_update e (calculateTotals (estimate w) (lineItems w)))) = None"
    and "rejects be (DeleteLineItems (estimate_id e)) = None"
    and "lineItemsToInsert e (lineItems w) \<noteq> []"
    and "rejects be (InsertLineItems (lineItemsToInsert e (lineItems w))) = None"
  shows "handleSave be w =
     save_finished be
      (w\<lparr>saving := True,
       issued := issued w @ [UpdateEstimate (estimate_id e)
           (header_update e (calculateTotals (estimate w) (lineItems w))),
           DeleteLineItems (estimate_id e),
           InsertLineItems (lineItemsToInsert e (lineItems w))],
       db := run_request be (InsertLineItems (lineItemsToInsert e (lineItems w)))
         (run_request be (DeleteLineItems (estimate_id e))
          (run_request be (UpdateEstimate (estimate_id e)
           (header_update e (calculateTotals (estimate w) (lineItems w)))) (db w)))\<rparr>)"
  using assms by (simp add: handleSave_def Let_def call_def)


lemma trim_Nil: "trim [] = []"
  by (simp add: trim_def)

lemma kept_filter:
  "filter (\<lambda>item. description item \<noteq> [] \<and> trim (description item) \<noteq> []) items
   = filter (\<lambda>item. trim (description item) \<noteq> []) items"
  by (rule filter_cong [OF refl]) (auto simp: trim_Nil)

lemma map_enumerate_nth:
  "map (\<lambda>(k, x). f k x) (enumerate 0 xs) = map (\<lambda>k. f k (xs ! k)) [0..<length xs]"
  by (rule nth_equalityI) (simp_all add: nth_enumerate_eq)

lemma lineItemsToInsert_nth:
  "lineItemsToInsert e items =
     map (\<lambda>k. \<lparr>ins_estimate_id = estimate_id e,
               ins_line_order = k,
               ins_item_type = item_type (filter (\<lambda>item. trim (description item) \<noteq> []) items ! k),
               ins_description = description (filter (\<lambda>item. trim (description item) \<noteq> []) items ! k),
               ins_quantity = quantity (filter (\<lambda>item. trim (description item) \<noteq> []) items ! k),
               ins_unit_price = unit_price (filter (\<lambda>item. trim (description item) \<noteq> []) items ! k),
               ins_line_total = line_total (filter (\<lambda>item. trim (description item) \<noteq> []) items ! k),
               ins_part_id = or_null (part_id (filter (\<lambda>item. trim (description item) \<noteq> []) items ! k)),
               ins_equipment_id = or_null (equipment_id (filter (\<lambda>item. trim (description item) \<noteq> []) items ! k)),
               ins_labor_hours =
                 (if item_type (filter (\<lambda>item. trim (description item) \<noteq> []) items ! k) = ''labor''
                  then Some (quantity (filter (\<lambda>item. trim (description item) \<noteq> []) items ! k)) else None),
               ins_labor_rate =
                 (if item_type (filter (\<lambda>item. trim (description item) \<noteq> []) items ! k) = ''labor''
                  then Some (unit_price (filter (\<lambda>item. trim (description item) \<noteq> []) items ! k)) else None)\<rparr>)
         [0..<length (filter (\<lambda>item. trim (description item) \<noteq> []) items)]"
  unfolding lineItemsToInsert_def kept_filter
  by (rule map_enumerate_nth)

lemma lineItemsToInsert_Nil:
  "(lineItemsToInsert e items = []) = (filter (\<lambda>item. trim (description item) \<noteq> []) items = [])"
  by (simp add: lineItemsToInsert_def kept_filter enumerate_eq_zip)

lemma lineItemsToInsert_estimate_id:
  "r \<in> set (lineItemsToInsert e items) \<Longrightarrow> ins_estimate_id r = estimate_id e"
  by (auto simp: lineItemsToInsert_def)

lemma stored_after_replace:
  assumes "\<And>r. r \<in> set rows \<Longrightarrow> ins_estimate_id r = i"
  shows "map snd (filter (\<lambda>sr. ins_estimate_id (snd sr) = i)
            (estimate_line_items
               (run_request be (InsertLineItems rows) (run_request be (DeleteLineItems i) d))))
         = rows"
proof -
  have a: "filter (\<lambda>x. (case x of (rid, r) \<Rightarrow> ins_estimate_id r \<noteq> i) \<and> ins_estimate_id (snd x) = i) xs
           = []" for xs :: "(string \<times> LineItemInsert) list"
    by (induction xs) auto
  have b: "map snd (filter (\<lambda>sr. ins_estimate_id (snd sr) = i)
              (map (\<lambda>(k, r). (g k, r)) (enumerate n rs))) = rs"
    if "\<And>r. r \<in> set rs \<Longrightarrow> ins_estimate_id r = i" for g :: "nat \<Rightarrow> string" and n rs
    using that by (induction rs arbitrary: n) simp_all
  show ?thesis
    using assms by (simp add: a b new_line_item_rows_def)
qed

section \<open>Saving\<close>

lemma example_world_estimate:
  "estimate example_world = Some (example_estimate\<lparr>job_title := ''Pylon sign''\<rparr>)"
  by (simp add: example_world_def)

lemma example_estimate_id:
  "estimate_id (example_estimate\<lparr>job_title := ''Pylon sign''\<rparr>) = ''e-1''"
  by (simp add: example_estimate_def)

lemma example_world_totals:
  "calculateTotals (estimate example_world) (lineItems example_world)
   = \<lparr>totals_subtotal = 200, totals_discount = 20, totals_taxAmount = 18, totals_total = 198\<rparr>"
  by (simp add: calculateTotals_def tax_rate_or_zero_def example_world_def example_estimate_def
      example_labor_def example_discount_def)

text \<open>
  C4. When the backend answers the header update of a save with an error, the save stops
  there: the update is the only request sent, so no delete and no insert reaches the table of
  line items, the tables are exactly as before, and the failure is shown in an alert.
\<close>

theorem handleSave_header_update_fails:
  assumes "estimate w = Some e"
    and "rejects be (UpdateEstimate (estimate_id e)
           (header_update e (calculateTotals (estimate w) (lineItems w)))) = Some err"
  shows "sent_by w (handleSave be w)
           = [UpdateEstimate (estimate_id e)
                (header_update e (calculateTotals (estimate w) (lineItems w)))]
       \<and> filter writes_line_items (sent_by w (handleSave be w)) = []
       \<and> estimate_line_items (db (handleSave be w)) = estimate_line_items (db w)
       \<and> db (handleSave be w) = db w
       \<and> alerts (handleSave be w) = alerts w @ [''Failed to save estimate. Please try again.'']"
  by (simp add: handleSave_update_rejected [OF assms] sent_by_def)

text \<open>
  The example estimate saved against a backend that rejects the header update.
\<close>

theorem handleSave_header_update_fails_witness:
  "estimate example_world = Some (example_estimate\<lparr>job_title := ''Pylon sign''\<rparr>)
   \<and> rejects rejecting_header_update
        (UpdateEstimate ''e-1''
           (header_update (example_estimate\<lparr>job_title := ''Pylon sign''\<rparr>)
              (calculateTotals (estimate example_world) (lineItems example_world))))
      = Some example_error
   \<and> filter writes_line_items
        (sent_by example_world (handleSave rejecting_header_update example_world)) = []
   \<and> estimate_line_items (db (handleSave rejecting_header_update example_world)) = example_rows
   \<and> alerts (handleSave rejecting_header_update example_world)
      = [''Failed to save estimate. Please try again.'']"
proof -
  have e: "estimate example_world = Some (example_estimate\<lparr>job_title := ''Pylon sign''\<rparr>)"
    by (simp add: example_world_def)
  have i: "estimate_id (example_estimate\<lparr>job_title := ''Pylon sign''\<rparr>) = ''e-1''"
    by (simp add: example_estimate_def)
  have r: "rejects rejecting_header_update
        (UpdateEstimate (estimate_id (example_estimate\<lparr>job_title := ''Pylon sign''\<rparr>))
           (header_update (example_estimate\<lparr>job_title := ''Pylon sign''\<rparr>)
              (calculateTotals (estimate example_world) (lineItems example_world))))
      = Some example_error"
    by (simp add: rejecting_header_update_def)
  have d: "estimate_line_items (db example_world) = example_rows" "alerts example_world = []"
    by (simp_all add: example_world_def)
  show ?thesis
    using handleSave_header_update_fails [OF e r] e r d unfolding i by simp
qed

text \<open>
  C5, as the code has it. When the header update succeeds and the delete of the line items
  is answered with an error, the save sends these two requests and no insert; the estimate's
  row carries the new header (the edited fields and the freshly computed totals), the stored
  line items are the old ones, nothing is rolled back, the failure is shown in an alert and
  the dialog stays in edit mode with its unsaved state.
\<close>

theorem handleSave_delete_fails:
  assumes "estimate w = Some e"
    and "rejects be (UpdateEstimate (estimate_id e)
           (header_update e (calculateTotals (estimate w) (lineItems w)))) = None"
    and "rejects be (DeleteLineItems (estimate_id e)) = Some err"
  shows "sent_by w (handleSave be w)
           = [UpdateEstimate (estimate_id e)
                (header_update e (calculateTotals (estimate w) (lineItems w))),
              DeleteLineItems (estimate_id e)]
       \<and> estimates (db (handleSave be w))
           = map (\<lambda>row. if estimate_id row = estimate_id e
                         then write_header
                                (header_update e (calculateTotals (estimate w) (lineItems w))) row
                         else row)
                 (estimates (db w))
       \<and> estimate_line_items (db (handleSave be w)) = estimate_line_items (db w)
       \<and> alerts (handleSave be w) = alerts w @ [''Failed to save estimate. Please try again.'']
       \<and> editing (handleSave be w) = editing w
       \<and> estimate (handleSave be w) = estimate w
       \<and> lineItems (handleSave be w) = lineItems w"
  by (simp add: handleSave_delete_rejected [OF assms] sent_by_def)

text \<open>
  C5 as the specification words it (the estimate keeps its old header) fails: with the job
  title edited and the delete rejected, the stored row has the new title and the new total.
\<close>

theorem handleSave_delete_fails_old_header_counterexample:
  "rejects rejecting_delete
     (UpdateEstimate ''e-1''
        (header_update (example_estimate\<lparr>job_title := ''Pylon sign''\<rparr>)
           (calculateTotals (estimate example_world) (lineItems example_world)))) = None
   \<and> rejects rejecting_delete (DeleteLineItems ''e-1'') = Some example_error
   \<and> map job_title (estimates (db example_world)) = [''Channel letters'']
   \<and> map job_title (estimates (db (handleSave rejecting_delete example_world))) = [''Pylon sign'']
   \<and> map total_amount (estimates (db example_world)) = [0]
   \<and> map total_amount (estimates (db (handleSave rejecting_delete example_world))) = [198]"
  by (simp add: handleSave_def call_def save_failed_def rejecting_delete_def accepting_def
      example_world_def example_estimate_def header_update_def write_header_def
      calculateTotals_def tax_rate_or_zero_def example_labor_def example_discount_def)

text \<open>
  The example estimate saved against a backend that rejects the delete.
\<close>

theorem handleSave_delete_fails_witness:
  "estimate example_world = Some (example_estimate\<lparr>job_title := ''Pylon sign''\<rparr>)
   \<and> rejects rejecting_delete
        (UpdateEstimate ''e-1''
           (header_update (example_estimate\<lparr>job_title := ''Pylon sign''\<rparr>)
              (calculateTotals (estimate example_world) (lineItems example_world)))) = None
   \<and> rejects rejecting_delete (DeleteLineItems ''e-1'') = Some example_error
   \<and> estimates (db (handleSave rejecting_delete example_world))
      = [example_estimate\<lparr>job_title := ''Pylon sign'', subtotal := 200, tax_amount := 18,
                           total_amount := 198\<rparr>]
   \<and> estimate_line_items (db (handleSave rejecting_delete example_world)) = example_rows
   \<and> alerts (handleSave rejecting_delete example_world)
      = [''Failed to save estimate. Please try again.'']
   \<and> editing (handleSave rejecting_delete example_world)"
proof -
  have r1: "rejects rejecting_delete
        (UpdateEstimate (estimate_id (example_estimate\<lparr>job_title := ''Pylon sign''\<rparr>))
           (header_update (example_estimate\<lparr>job_title := ''Pylon sign''\<rparr>)
              (calculateTotals (estimate example_world) (lineItems example_world)))) = None"
    by (simp add: rejecting_delete_def)
  have r2: "rejects rejecting_delete
        (DeleteLineItems (estimate_id (example_estimate\<lparr>job_title := ''Pylon sign''\<rparr>)))
        = Some example_error"
    by (simp add: rejecting_delete_def)
  have d: "estimate_line_items (db example_world) = example_rows" "alerts example_world = []"
    "editing example_world" "estimates (db example_world) = [example_estimate]"
    "estimate_id example_estimate = ''e-1''"
    by (simp_all add: example_world_def example_estimate_def)
  have h: "write_header
             (header_update (example_estimate\<lparr>job_title := ''Pylon sign''\<rparr>)
                (calculateTotals (estimate example_world) (lineItems example_world)))
             example_estimate
           = example_estimate\<lparr>job_title := ''Pylon sign'', subtotal := 200, tax_amount := 18,
                           total_amount := 198\<rparr>"
    by (simp add: example_world_totals write_header_def header_update_def example_estimate_def)
  show ?thesis
    using handleSave_delete_fails [OF example_world_estimate r1 r2] example_world_estimate r1 r2 d h
    unfolding example_estimate_id by simp
qed

text \<open>
  C3. When a save gets as far as the line items (header update and delete accepted), the
  items it inserts are exactly those whose description is not empty after trimming, in the
  order they have in the editor: the k-th of them gets \<open>line_order\<close> k, its
  \<open>labor_hours\<close> and \<open>labor_rate\<close> are its quantity and unit price when its type is labor
  and null otherwise. Nothing is inserted when no item is kept, and when the insert is
  accepted these rows are the estimate's stored line items.
\<close>

theorem handleSave_inserts_kept_items:
  assumes "estimate w = Some e"
    and "rejects be (UpdateEstimate (estimate_id e)
           (header_update e (calculateTotals (estimate w) (lineItems w)))) = None"
    and "rejects be (DeleteLineItems (estimate_id e)) = None"
  shows "let kept = filter (\<lambda>item. trim (description item) \<noteq> []) (lineItems w);
             rows = map (\<lambda>k. \<lparr>ins_estimate_id = estimate_id e,
                               ins_line_order = k,
                               ins_item_type = item_type (kept ! k),
                               ins_description = description (kept ! k),
                               ins_quantity = quantity (kept ! k),
                               ins_unit_price = unit_price (kept ! k),
                               ins_line_total = line_total (kept ! k),
                               ins_part_id = or_null (part_id (kept ! k)),
                               ins_equipment_id = or_null (equipment_id (kept ! k)),
                               ins_labor_hours =
                                 (if item_type (kept ! k) = ''labor''
                                  then Some (quantity (kept ! k)) else None),
                               ins_labor_rate =
                                 (if item_type (kept ! k) = ''labor''
                                  then Some (unit_price (kept ! k)) else None)\<rparr>)
                        [0..<length kept]
         in subseq kept (lineItems w)
            \<and> filter writes_line_items (sent_by w (handleSave be w))
                = DeleteLineItems (estimate_id e)
                  # (if kept = [] then [] else [InsertLineItems rows])
            \<and> (rejects be (InsertLineItems rows) = None \<longrightarrow>
                 map snd (filter (\<lambda>sr. ins_estimate_id (snd sr) = estimate_id e)
                            (estimate_line_items (db (handleSave be w))))
                 = rows)"
proof -
  let ?kept = "filter (\<lambda>item. trim (description item) \<noteq> []) (lineItems w)"
  let ?rows = "lineItemsToInsert e (lineItems w)"
  have sub: "subseq ?kept (lineItems w)"
    by simp
  have sent: "filter writes_line_items (sent_by w (handleSave be w))
                = DeleteLineItems (estimate_id e)
                  # (if ?kept = [] then [] else [InsertLineItems ?rows])"
  proof (cases "?rows = []")
    case True
    then show ?thesis
      using lineItemsToInsert_Nil [of e "lineItems w"]
      by (simp add: handleSave_nothing_to_insert [OF assms True] save_finished_def sent_by_def
          loadEstimateDetails_issued reload_requests_no_write)
  next
    case False
    show ?thesis
    proof (cases "rejects be (InsertLineItems ?rows)")
      case None
      then show ?thesis
        using False lineItemsToInsert_Nil [of e "lineItems w"]
        by (simp add: handleSave_inserted [OF assms False None] save_finished_def sent_by_def
            loadEstimateDetails_issued reload_requests_no_write)
    next
      case (Some err)
      then show ?thesis
        using False lineItemsToInsert_Nil [of e "lineItems w"]
        by (simp add: handleSave_insert_rejected [OF assms False Some] sent_by_def)
    qed
  qed
  have stored: "map snd (filter (\<lambda>sr. ins_estimate_id (snd sr) = estimate_id e)
                            (estimate_line_items (db (handleSave be w)))) = ?rows"
    if acc: "rejects be (InsertLineItems ?rows) = None"
  proof (cases "?rows = []")
    case True
    have "map snd (filter (\<lambda>sr. ins_estimate_id (snd sr) = estimate_id e)
            (estimate_line_items
               (run_request be (InsertLineItems [])
                  (run_request be (DeleteLineItems (estimate_id e))
                     (run_request be (UpdateEstimate (estimate_id e)
                        (header_update e (calculateTotals (estimate w) (lineItems w)))) (db w))))))
          = []"
      by (rule stored_after_replace) simp
    then show ?thesis
      using True
      by (simp add: handleSave_nothing_to_insert [OF assms True] save_finished_def
          loadEstimateDetails_db new_line_item_rows_def)
  next
    case False
    have "map snd (filter (\<lambda>sr. ins_estimate_id (snd sr) = estimate_id e)
            (estimate_line_items
               (run_request be (InsertLineItems ?rows)
                  (run_request be (DeleteLineItems (estimate_id e))
                     (run_request be (UpdateEstimate (estimate_id e)
                        (header_update e (calculateTotals (estimate w) (lineItems w)))) (db w))))))
          = ?rows"
      by (rule stored_after_replace) (rule lineItemsToInsert_estimate_id)
    then show ?thesis
      by (simp add: handleSave_inserted [OF assms False acc] save_finished_def
          loadEstimateDetails_db)
  qed
  show ?thesis
    unfolding Let_def lineItemsToInsert_nth [symmetric]
    using sub sent stored by blast
qed


lemma trim_examples:
  "trim ''Standard Rate'' = ''Standard Rate''" "trim ''Promo'' = ''Promo''"
  by (simp_all add: trim_def isWhiteSpace_def)

text \<open>
  Saving the labor example together with a line whose description is empty.
\<close>

theorem handleSave_inserts_kept_items_witness:
  "estimate example_world_blank = Some (example_estimate\<lparr>job_title := ''Pylon sign''\<rparr>)
   \<and> rejects accepting
        (UpdateEstimate ''e-1''
           (header_update (example_estimate\<lparr>job_title := ''Pylon sign''\<rparr>)
              (calculateTotals (estimate example_world_blank) (lineItems example_world_blank))))
      = None
   \<and> rejects accepting (DeleteLineItems ''e-1'') = None
   \<and> lineItems example_world_blank = [example_labor, example_blank]
   \<and> filter writes_line_items
        (sent_by example_world_blank (handleSave accepting example_world_blank))
      = [DeleteLineItems ''e-1'',
         InsertLineItems
           [\<lparr>ins_estimate_id = ''e-1'', ins_line_order = 0, ins_item_type = ''labor'',
             ins_description = ''Standard Rate'', ins_quantity = 2, ins_unit_price = 100,
             ins_line_total = 200, ins_part_id = None, ins_equipment_id = None,
             ins_labor_hours = Some 2, ins_labor_rate = Some 100\<rparr>]]
   \<and> map snd (filter (\<lambda>sr. ins_estimate_id (snd sr) = ''e-1'')
                 (estimate_line_items (db (handleSave accepting example_world_blank))))
      = [\<lparr>ins_estimate_id = ''e-1'', ins_line_order = 0, ins_item_type = ''labor'',
          ins_description = ''Standard Rate'', ins_quantity = 2, ins_unit_price = 100,
          ins_line_total = 200, ins_part_id = None, ins_equipment_id = None,
          ins_labor_hours = Some 2, ins_labor_rate = Some 100\<rparr>]"
proof -
  have e: "estimate example_world_blank = Some (example_estimate\<lparr>job_title := ''Pylon sign''\<rparr>)"
    by (simp add: example_world_blank_def example_world_def)
  have r1: "rejects accepting
        (UpdateEstimate (estimate_id (example_estimate\<lparr>job_title := ''Pylon sign''\<rparr>))
           (header_update (example_estimate\<lparr>job_title := ''Pylon sign''\<rparr>)
              (calculateTotals (estimate example_world_blank) (lineItems example_world_blank))))
      = None"
    by (simp add: accepting_def)
  have r2: "rejects accepting
        (DeleteLineItems (estimate_id (example_estimate\<lparr>job_title := ''Pylon sign''\<rparr>))) = None"
    by (simp add: accepting_def)
  have l: "lineItems example_world_blank = [example_labor, example_blank]"
    by (simp add: example_world_blank_def)
  have k: "filter (\<lambda>item. trim (description item) \<noteq> []) [example_labor, example_blank]
           = [example_labor]"
    by (simp add: example_labor_def example_blank_def trim_examples trim_Nil)
  have f: "item_type example_labor = ''labor''" "description example_labor = ''Standard Rate''"
    "quantity example_labor = 2" "unit_price example_labor = 100" "line_total example_labor = 200"
    "part_id example_labor = None" "equipment_id example_labor = None"
    by (simp_all add: example_labor_def)
  have a: "rejects accepting r = None" for r
    by (simp add: accepting_def)
  show ?thesis
    using handleSave_inserts_kept_items [OF e r1 r2] e r1 r2
    unfolding example_estimate_id l k Let_def
    by (simp add: f a or_null_def l)
qed

text \<open>
  C2 at a concrete save. The editor holds the labor example (200) and a hand-priced labor line
  with an empty description (50); every request succeeds. The stored header then has subtotal
  250, tax 25 and total 275, computed from both lines, while the only stored line item is the
  labor example, from which \<^verbatim>\<open>calculateTotals\<close> gives 200, 20 and 220.
\<close>

theorem handleSave_totals_of_unsaved_lines:
  "lineItems example_world_blank = [example_labor, example_blank]
   \<and> description example_blank = []
   \<and> line_total example_blank = 50
   \<and> map (\<lambda>row. (subtotal row, tax_rate row, tax_amount row, total_amount row))
         (estimates (db (handleSave accepting example_world_blank)))
      = [(250, 10, 25, 275)]
   \<and> map line_total (stored_line_items ''e-1'' (db (handleSave accepting example_world_blank)))
      = [200]
   \<and> calculateTotals (single_estimate ''e-1'' (db (handleSave accepting example_world_blank)))
        (stored_line_items ''e-1'' (db (handleSave accepting example_world_blank)))
      = \<lparr>totals_subtotal = 200, totals_discount = 0, totals_taxAmount = 20, totals_total = 220\<rparr>"
  by (simp add: handleSave_def call_def save_finished_def loadEstimateDetails_def
      accepting_def example_world_blank_def example_world_def example_estimate_def
      header_update_def write_header_def calculateTotals_def tax_rate_or_zero_def
      example_labor_def example_blank_def example_rows_def lineItemsToInsert_def
      trim_examples trim_Nil or_null_def new_line_item_rows_def stored_line_items_def
      single_estimate_def as_LineItem_def Let_def)

section \<open>The editor\<close>













section \<open>Conversion and the ticket dialog\<close>

lemma handleConvertToTicket_done:
  assumes "estimate w = Some e" and "profile_id w = Some pid"
    and "rejects be (InsertTicket (ticket_insert e pid)) = None"
    and "rejects be (UpdateConversion (estimate_id e)
           \<lparr>cu_status = ''converted'',
            cu_converted_to_ticket_id = Some (gen_id be (length (tickets (db w)))),
            cu_converted_to_project_id = None,
            cu_conversion_date = now\<rparr>) = None"
  shows "handleConvertToTicket be now True w =
     convert_done be
       (''Successfully converted to ticket #'' @
          (if gen_ticket_number be (length (tickets (db w))) = []
           then gen_id be (length (tickets (db w)))
           else gen_ticket_number be (length (tickets (db w)))))
       (w\<lparr>converting := True,
          issued := issued w @
            [InsertTicket (ticket_insert e pid),
             UpdateConversion (estimate_id e)
               \<lparr>cu_status = ''converted'',
                cu_converted_to_ticket_id = Some (gen_id be (length (tickets (db w)))),
                cu_converted_to_project_id = None,
                cu_conversion_date = now\<rparr>],
          db := run_request be
                  (UpdateConversion (estimate_id e)
                     \<lparr>cu_status = ''converted'',
                      cu_converted_to_ticket_id = Some (gen_id be (length (tickets (db w)))),
                      cu_converted_to_project_id = None,
                      cu_conversion_date = now\<rparr>)
                  (run_request be (InsertTicket (ticket_insert e pid)) (db w))\<rparr>)"
  using assms by (simp add: handleConvertToTicket_def Let_def call_def new_ticket_row_def)

lemma handleConvertToProject_done:
  assumes "estimate w = Some e" and "profile_id w = Some pid"
    and "rejects be (InsertProject (project_insert e pid)) = None"
    and "rejects be (UpdateConversion (estimate_id e)
           \<lparr>cu_status = ''converted'',
            cu_converted_to_ticket_id = None,
            cu_converted_to_project_id = Some (gen_id be (length (projects (db w)))),
            cu_conversion_date = now\<rparr>) = None"
  shows "handleConvertToProject be now True w =
     convert_done be
       (''Successfully converted to project \"'' @ job_title e @ ''\"'')
       (w\<lparr>converting := True,
          issued := issued w @
            [InsertProject (project_insert e pid),
             UpdateConversion (estimate_id e)
               \<lparr>cu_status = ''converted'',
                cu_converted_to_ticket_id = None,
                cu_converted_to_project_id = Some (gen_id be (length (projects (db w)))),
                cu_conversion_date = now\<rparr>],
          db := run_request be
                  (UpdateConversion (estimate_id e)
                     \<lparr>cu_status = ''converted'',
                      cu_converted_to_ticket_id = None,
                      cu_converted_to_project_id = Some (gen_id be (length (projects (db w)))),
                      cu_conversion_date = now\<rparr>)
                  (run_request be (InsertProject (project_insert e pid)) (db w))\<rparr>)"
  using assms
  by (simp add: handleConvertToProject_def Let_def call_def new_project_row_def project_insert_def)

text \<open>
  C8, as the code has it. With an estimate loaded, a profile signed in and the question
  confirmed, a conversion whose two requests are accepted appends one record and stamps the
  estimate's row. The ticket takes the estimate's customer, its job title and its job
  description (or the text 'Converted from estimate' when that is empty), and no amount; the
  project takes customer, job title, job description and the total as its budget. The row
  gets status converted, the identifier of the new record as back-reference and the conversion
  date.
\<close>

theorem conversion_creates_and_stamps:
  assumes "estimate w = Some e" and "profile_id w = Some pid"
  shows
    "(rejects be (InsertTicket (ticket_insert e pid)) = None
      \<and> rejects be (UpdateConversion (estimate_id e)
           \<lparr>cu_status = ''converted'',
            cu_converted_to_ticket_id = Some (gen_id be (length (tickets (db w)))),
            cu_converted_to_project_id = None,
            cu_conversion_date = now\<rparr>) = None
      \<longrightarrow>
        tickets (db (handleConvertToTicket be now True w))
          = tickets (db w) @
            [\<lparr>ticket_row_id = gen_id be (length (tickets (db w))),
              ticket_number = gen_ticket_number be (length (tickets (db w))),
              ticket_fields =
                \<lparr>tkt_customer_id = customer_id e,
                 tkt_title = job_title e,
                 tkt_description =
                   (if job_description e = [] then ''Converted from estimate''
                    else job_description e),
                 tkt_ticket_type = ''SVC'', tkt_status = ''open'', tkt_priority = ''normal'',
                 tkt_created_by = pid, tkt_assigned_to = pid\<rparr>\<rparr>]
        \<and> estimates (db (handleConvertToTicket be now True w))
          = map (\<lambda>row. if estimate_id row = estimate_id e
                        then row\<lparr>status := ''converted'',
                                 converted_to_ticket_id :=
                                   Some (gen_id be (length (tickets (db w)))),
                                 conversion_date := Some now\<rparr>
                        else row)
                (estimates (db w))
        \<and> projects (db (handleConvertToTicket be now True w)) = projects (db w))
   \<and> (rejects be (InsertProject (project_insert e pid)) = None
      \<and> rejects be (UpdateConversion (estimate_id e)
           \<lparr>cu_status = ''converted'',
            cu_converted_to_ticket_id = None,
            cu_converted_to_project_id = Some (gen_id be (length (projects (db w)))),
            cu_conversion_date = now\<rparr>) = None
      \<longrightarrow>
        projects (db (handleConvertToProject be now True w))
          = projects (db w) @
            [(gen_id be (length (projects (db w))),
              \<lparr>prj_customer_id = customer_id e,
               prj_name = job_title e,
               prj_description = job_description e,
               prj_status = ''planning'',
               prj_budget_amount = total_amount e,
               prj_project_manager_id = pid\<rparr>)]
        \<and> estimates (db (handleConvertToProject be now True w))
          = map (\<lambda>row. if estimate_id row = estimate_id e
                        then row\<lparr>status := ''converted'',
                                 converted_to_project_id :=
                                   Some (gen_id be (length (projects (db w)))),
                                 conversion_date := Some now\<rparr>
                        else row)
                (estimates (db w))
        \<and> tickets (db (handleConvertToProject be now True w)) = tickets (db w))"
proof -
  have t: "tickets (db (handleConvertToTicket be now True w))
          = tickets (db w) @
            [\<lparr>ticket_row_id = gen_id be (length (tickets (db w))),
              ticket_number = gen_ticket_number be (length (tickets (db w))),
              ticket_fields =
                \<lparr>tkt_customer_id = customer_id e,
                 tkt_title = job_title e,
                 tkt_description =
                   (if job_description e = [] then ''Converted from estimate''
                    else job_description e),
                 tkt_ticket_type = ''SVC'', tkt_status = ''open'', tkt_priority = ''normal'',
                 tkt_created_by = pid, tkt_assigned_to = pid\<rparr>\<rparr>]
        \<and> estimates (db (handleConvertToTicket be now True w))
          = map (\<lambda>row. if estimate_id row = estimate_id e
                        then row\<lparr>status := ''converted'',
                                 converted_to_ticket_id :=
                                   Some (gen_id be (length (tickets (db w)))),
                                 conversion_date := Some now\<rparr>
                        else row)
                (estimates (db w))
        \<and> projects (db (handleConvertToTicket be now True w)) = projects (db w)"
    if a: "rejects be (InsertTicket (ticket_insert e pid)) = None"
      and b: "rejects be (UpdateConversion (estimate_id e)
           \<lparr>cu_status = ''converted'',
            cu_converted_to_ticket_id = Some (gen_id be (length (tickets (db w)))),
            cu_converted_to_project_id = None,
            cu_conversion_date = now\<rparr>) = None"
    by (simp add: handleConvertToTicket_done [OF assms a b] convert_done_def
        loadEstimateDetails_db new_ticket_row_def ticket_insert_def write_conversion_def)
  have p: "projects (db (handleConvertToProject be now True w))
          = projects (db w) @
            [(gen_id be (length (projects (db w))),
              \<lparr>prj_customer_id = customer_id e,
               prj_name = job_title e,
               prj_description = job_description e,
               prj_status = ''planning'',
               prj_budget_amount = total_amount e,
               prj_project_manager_id = pid\<rparr>)]
        \<and> estimates (db (handleConvertToProject be now True w))
          = map (\<lambda>row. if estimate_id row = estimate_id e
                        then row\<lparr>status := ''converted'',
                                 converted_to_project_id :=
                                   Some (gen_id be (length (projects (db w)))),
                                 conversion_date := Some now\<rparr>
                        else row)
                (estimates (db w))
        \<and> tickets (db (handleConvertToProject be now True w)) = tickets (db w)"
    if a: "rejects be (InsertProject (project_insert e pid)) = None"
      and b: "rejects be (UpdateConversion (estimate_id e)
           \<lparr>cu_status = ''converted'',
            cu_converted_to_ticket_id = None,
            cu_converted_to_project_id = Some (gen_id be (length (projects (db w)))),
            cu_conversion_date = now\<rparr>) = None"
    by (simp add: handleConvertToProject_done [OF assms a b] convert_done_def
        loadEstimateDetails_db new_project_row_def project_insert_def write_conversion_def)
  show ?thesis
    using t p by blast
qed


lemma accepting_all: "rejects accepting r = None"
  by (simp add: accepting_def)

lemma accepting_ids:
  "gen_id accepting 0 = ''x''" "gen_id accepting (Suc 0) = ''xx''"
  "gen_ticket_number accepting 0 = ''7''" "gen_ticket_number accepting (Suc 0) = ''77''"
  by (simp_all add: accepting_def)

text \<open>
  Converting the example estimate to a ticket and to a project on a backend that accepts all.
\<close>

theorem conversion_creates_and_stamps_witness:
  "estimate example_world = Some (example_estimate\<lparr>job_title := ''Pylon sign''\<rparr>)
   \<and> profile_id example_world = Some ''u-1''
   \<and> rejects accepting
        (InsertTicket (ticket_insert (example_estimate\<lparr>job_title := ''Pylon sign''\<rparr>) ''u-1''))
      = None
   \<and> rejects accepting
        (InsertProject (project_insert (example_estimate\<lparr>job_title := ''Pylon sign''\<rparr>) ''u-1''))
      = None
   \<and> tickets (db (handleConvertToTicket accepting ''2024-01-06'' True example_world))
      = [\<lparr>ticket_row_id = ''x'', ticket_number = ''7'',
          ticket_fields =
            \<lparr>tkt_customer_id = ''c-1'', tkt_title = ''Pylon sign'',
             tkt_description = ''Install sign'', tkt_ticket_type = ''SVC'',
             tkt_status = ''open'', tkt_priority = ''normal'',
             tkt_created_by = ''u-1'', tkt_assigned_to = ''u-1''\<rparr>\<rparr>]
   \<and> estimates (db (handleConvertToTicket accepting ''2024-01-06'' True example_world))
      = [example_estimate\<lparr>status := ''converted'', converted_to_ticket_id := Some ''x'',
                           conversion_date := Some ''2024-01-06''\<rparr>]
   \<and> projects (db (handleConvertToProject accepting ''2024-01-06'' True example_world))
      = [(''x'', \<lparr>prj_customer_id = ''c-1'', prj_name = ''Pylon sign'',
                 prj_description = ''Install sign'', prj_status = ''planning'',
                 prj_budget_amount = 0, prj_project_manager_id = ''u-1''\<rparr>)]
   \<and> estimates (db (handleConvertToProject accepting ''2024-01-06'' True example_world))
      = [example_estimate\<lparr>status := ''converted'', converted_to_project_id := Some ''x'',
                           conversion_date := Some ''2024-01-06''\<rparr>]"
proof -
  have e: "estimate example_world = Some (example_estimate\<lparr>job_title := ''Pylon sign''\<rparr>)"
    and p: "profile_id example_world = Some ''u-1''"
    by (simp_all add: example_world_def)
  have d: "tickets (db example_world) = []" "projects (db example_world) = []"
    "estimates (db example_world) = [example_estimate]"
    by (simp_all add: example_world_def)
  have f: "estimate_id example_estimate = ''e-1''" "customer_id example_estimate = ''c-1''"
    "job_description example_estimate = ''Install sign''" "total_amount example_estimate = 0"
    by (simp_all add: example_estimate_def)
  show ?thesis
    using conversion_creates_and_stamps [OF e p, of accepting "''2024-01-06''"] e p
    by (simp add: accepting_all accepting_ids d f)
qed

text \<open>
  C8 as worded (the ticket is seeded from the total) fails: estimates that differ only in
  their total give the same ticket.
\<close>

theorem ticket_ignores_total_counterexample:
  "total_amount (example_estimate\<lparr>total_amount := 198\<rparr>) = 198
   \<and> total_amount (example_estimate\<lparr>total_amount := 5000\<rparr>) = 5000
   \<and> length (tickets (db (handleConvertToTicket accepting ''2024-01-06'' True
        (example_world\<lparr>estimate := Some (example_estimate\<lparr>total_amount := 198\<rparr>)\<rparr>)))) = 1
   \<and> tickets (db (handleConvertToTicket accepting ''2024-01-06'' True
        (example_world\<lparr>estimate := Some (example_estimate\<lparr>total_amount := 198\<rparr>)\<rparr>)))
     = tickets (db (handleConvertToTicket accepting ''2024-01-06'' True
        (example_world\<lparr>estimate := Some (example_estimate\<lparr>total_amount := 5000\<rparr>)\<rparr>)))"
  by (simp add: handleConvertToTicket_def call_def convert_done_def loadEstimateDetails_db
      accepting_def example_world_def ticket_insert_def new_ticket_row_def Let_def)

text \<open>
  C7 at a concrete conversion. The stored row of the estimate is already converted and refers
  to ticket t-0, while the dialog still holds the accepted copy it loaded earlier, so the
  button is enabled. The click inserts a second ticket and overwrites the back-reference and
  the conversion date. The handler does the same when the copy it holds is the converted row:
  it has no check of its own.
\<close>

theorem convert_already_converted:
  "map status (estimates (db example_world_stale)) = [''converted'']
   \<and> map converted_to_ticket_id (estimates (db example_world_stale)) = [Some ''t-0'']
   \<and> map conversion_date (estimates (db example_world_stale))
      = [Some ''2024-01-05T10:00:00.000Z'']
   \<and> map ticket_row_id (tickets (db example_world_stale)) = [''t-0'']
   \<and> convert_buttons_enabled example_world_stale
   \<and> map ticket_row_id
        (tickets (db (click_convert_to_ticket accepting ''2024-01-06T09:00:00.000Z'' True
                        example_world_stale)))
      = [''t-0'', ''xx'']
   \<and> map converted_to_ticket_id
        (estimates (db (click_convert_to_ticket accepting ''2024-01-06T09:00:00.000Z'' True
                          example_world_stale)))
      = [Some ''xx'']
   \<and> map conversion_date
        (estimates (db (click_convert_to_ticket accepting ''2024-01-06T09:00:00.000Z'' True
                          example_world_stale)))
      = [Some ''2024-01-06T09:00:00.000Z'']
   \<and> map ticket_row_id
        (tickets (db (handleConvertToTicket accepting ''2024-01-06T09:00:00.000Z'' True
                        (example_world_stale\<lparr>estimate :=
                           single_estimate ''e-1'' (db example_world_stale)\<rparr>))))
      = [''t-0'', ''xx'']"
  by (simp add: click_convert_to_ticket_def convert_buttons_enabled_def falsy_def
      handleConvertToTicket_def call_def convert_done_def loadEstimateDetails_db
      accepting_def example_world_stale_def example_estimate_def example_ticket_def
      ticket_insert_def new_ticket_row_def write_conversion_def single_estimate_def Let_def)

lemma str_includes_nonempty: "str_includes s sub \<Longrightarrow> sub \<noteq> [] \<Longrightarrow> s \<noteq> []"
  by (cases s) simp_all

text \<open>
  C9. When the ticket update comes back with an error whose message contains
  'permission denied', 'policy' or 'Row level security', \<^verbatim>\<open>handleUpdate\<close> shows the
  permission text in an alert and ends: the update was sent once, and neither
  \<^verbatim>\<open>onUpdate\<close> nor \<^verbatim>\<open>onClose\<close> is called.
\<close>

theorem handleUpdate_permission_denied:
  assumes "ticket s = Some t"
    and "respond (ticketId s) (ticket_updates parseFloat now t (status_input s) (hoursOnsite s))
         = Resolved (Some error)"
    and "str_includes (error_message error) ''permission denied''
         \<or> str_includes (error_message error) ''policy''
         \<or> str_includes (error_message error) ''Row level security''"
  shows "handleUpdate parseFloat now respond s
         = [SetSaving True,
            SendTicketUpdate (ticketId s)
              (ticket_updates parseFloat now t (status_input s) (hoursOnsite s)),
            Alert ''You do not have permission to update this ticket. Please contact your administrator.'',
            SetSaving False]
       \<and> length (filter is_update_request (handleUpdate parseFloat now respond s)) = 1
       \<and> OnUpdate \<notin> set (handleUpdate parseFloat now respond s)
       \<and> OnClose \<notin> set (handleUpdate parseFloat now respond s)"
proof -
  have "error_message error \<noteq> []"
    using assms(3) str_includes_nonempty by fastforce
  then have "errorMessage error = permission_text"
    using assms(3) by (auto simp: errorMessage_def)
  then show ?thesis
    using assms(1,2) by (simp add: handleUpdate_def Let_def permission_text_def)
qed

text \<open>
  A row-level-security error on completing the example ticket.
\<close>

theorem handleUpdate_permission_denied_witness:
  "ticket example_dialog = Some \<lparr>ticket_status = ''open'', completed_date = None\<rparr>
   \<and> str_includes (error_message example_error) ''policy''
   \<and> handleUpdate (\<lambda>x. None) ''2024-01-06'' (\<lambda>i u. Resolved (Some example_error)) example_dialog
      = [SetSaving True,
         SendTicketUpdate ''t-0''
           \<lparr>tu_status = ''completed'', tu_hours_onsite = None,
            tu_completed_date = Some ''2024-01-06''\<rparr>,
         Alert ''You do not have permission to update this ticket. Please contact your administrator.'',
         SetSaving False]"
proof -
  have t: "ticket example_dialog = Some \<lparr>ticket_status = ''open'', completed_date = None\<rparr>"
    by (simp add: example_dialog_def)
  have r: "(\<lambda>i u. Resolved (Some example_error)) (ticketId example_dialog)
             (ticket_updates (\<lambda>x. None) ''2024-01-06''
                \<lparr>ticket_status = ''open'', completed_date = None\<rparr>
                (status_input example_dialog) (hoursOnsite example_dialog))
           = Resolved (Some example_error)"
    by simp
  have i: "str_includes (error_message example_error) ''policy''"
    by (simp add: example_error_def)
  have i3: "str_includes (error_message example_error) ''permission denied''
         \<or> str_includes (error_message example_error) ''policy''
         \<or> str_includes (error_message example_error) ''Row level security''"
    using i by simp
  have u: "ticket_updates (\<lambda>x. None) ''2024-01-06''
                \<lparr>ticket_status = ''open'', completed_date = None\<rparr>
                (status_input example_dialog) (hoursOnsite example_dialog)
           = \<lparr>tu_status = ''completed'', tu_hours_onsite = None,
              tu_completed_date = Some ''2024-01-06''\<rparr>"
    by (simp add: ticket_updates_def example_dialog_def falsy_def)
  have d: "ticketId example_dialog = ''t-0''"
    by (simp add: example_dialog_def)
  show ?thesis
    using handleUpdate_permission_denied [OF t r i3] t i by (simp add: u d)
qed

end
